theory Spec2Isabelle
  imports Main
begin

section \<open>JavaScript strings\<close>

text \<open>
  Strings of the pages are modelled as lists of 8-bit code units. The class \<open>\s\<close> of
  the regular expressions, the characters removed by \<open>trim()\<close> and the leading
  blanks skipped by \<open>parseInt\<close> are the same set; below 256 these are the code units
  9 to 13, 32 and 160. \<open>\d\<close> is the ASCII digits 48 to 57.
\<close>

definition isSpace :: "char \<Rightarrow> bool" where
  "isSpace c = ((of_char c :: nat) \<in> set [9, 10, 11, 12, 13, 32, 160])"

definition isDigit :: "char \<Rightarrow> bool" where
  "isDigit c = (48 \<le> (of_char c :: nat) \<and> (of_char c :: nat) \<le> 57)"

text \<open>\<open>p.replace(/\s+/g, '')\<close>: every blank is dropped.\<close>

definition stripSpaces :: "string \<Rightarrow> string" where
  "stripSpaces p = filter (\<lambda>c. \<not> isSpace c) p"

text \<open>\<open>s.trim()\<close>: blanks are dropped at both ends.\<close>

definition trim :: "string \<Rightarrow> string" where
  "trim s = rev (dropWhile isSpace (rev (dropWhile isSpace s)))"

section \<open>Phone normalisation (normalizeUgPhone)\<close>

text \<open>
  The three regular expressions of the normaliser. None carries the multi-line flag, so
  \<open>^\<close> and \<open>$\<close> anchor at the two ends of the input and each pattern fixes the length.
  \<open>ugReCanonical\<close> is \<open>/^\+2567\d{8}$/\<close>, \<open>reBare\<close> is \<open>/^2567\d{8}$/\<close> and
  \<open>reLocal\<close> is \<open>/^07\d{8}$/\<close>.
\<close>

definition ugReCanonical :: "string \<Rightarrow> bool" where
  "ugReCanonical s = (length s = 13 \<and> take 5 s = ''+2567'' \<and> list_all isDigit (drop 5 s))"

definition reBare :: "string \<Rightarrow> bool" where
  "reBare s = (length s = 12 \<and> take 4 s = ''2567'' \<and> list_all isDigit (drop 4 s))"

definition reLocal :: "string \<Rightarrow> bool" where
  "reLocal s = (length s = 10 \<and> take 2 s = ''07'' \<and> list_all isDigit (drop 2 s))"

definition normalizeUgPhone :: "string \<Rightarrow> string" where
  "normalizeUgPhone p =
     (let s = stripSpaces p in
      if ugReCanonical s then s
      else if reBare s then CHR ''+'' # s
      else if reLocal s then ''+256'' @ drop 1 s
      else s)"

section \<open>JavaScript values and numbers\<close>

text \<open>
  The values read from the record store and from a request body. The numbers of the
  pages (box counts, timestamps in milliseconds, HTTP statuses) are integers and are
  modelled as unbounded integers; \<open>NaN\<close> is the missing result of an \<open>int option\<close>.
\<close>

datatype jsval = JUndef | JNull | JBool bool | JNum int | JStr string | JObj

definition digitVal :: "char \<Rightarrow> int" where
  "digitVal c = int (of_char c) - 48"

definition digitsVal :: "string \<Rightarrow> int" where
  "digitsVal ds = foldl (\<lambda>a c. 10 * a + digitVal c) 0 ds"

text \<open>
  \<open>parseInt(s, 10)\<close>: leading blanks are skipped, one sign is read, then the longest run
  of digits; whatever follows is ignored, and no digit at all gives \<open>NaN\<close>.
\<close>

definition parseInt :: "string \<Rightarrow> int option" where
  "parseInt s =
     (let t = dropWhile isSpace s;
          neg = (t \<noteq> [] \<and> hd t = CHR ''-'');
          u = (if t \<noteq> [] \<and> (hd t = CHR ''-'' \<or> hd t = CHR ''+'') then tl t else t);
          ds = takeWhile isDigit u
      in if ds = [] then None
         else Some (if neg then - digitsVal ds else digitsVal ds))"

text \<open>
  \<open>Number(s)\<close> on a string, for the integer literals: blanks are trimmed, the empty
  string is 0, an optional sign and a run of digits is its value. Fractions, exponents,
  radix prefixes and \<open>Infinity\<close> are not integers; they lie outside the number model and
  are given no value here.
\<close>

definition jsNumber :: "string \<Rightarrow> int option" where
  "jsNumber s =
     (let t = trim s;
          neg = (t \<noteq> [] \<and> hd t = CHR ''-'');
          u = (if t \<noteq> [] \<and> (hd t = CHR ''-'' \<or> hd t = CHR ''+'') then tl t else t)
      in if t = [] then Some 0
         else if u \<noteq> [] \<and> list_all isDigit u
           then Some (if neg then - digitsVal u else digitsVal u)
         else None)"

text \<open>\<open>String(n)\<close> of an integer: its decimal digits.\<close>

definition digitChar :: "nat \<Rightarrow> char" where
  "digitChar d = ''0123456789'' ! d"

fun showNat :: "nat \<Rightarrow> string" where
  "showNat n =
     (if n < 10 then [digitChar n]
      else showNat (n div 10) @ [digitChar (n mod 10)])"

declare showNat.simps [simp del]

definition jsString :: "int \<Rightarrow> string" where
  "jsString n = (if n < 0 then CHR ''-'' # showNat (nat (- n)) else showNat (nat n))"

text \<open>The helper \<open>num\<close> of the bounded-drugs page (\<open>parseNumber\<close> in its older copy).\<close>

definition num :: "jsval \<Rightarrow> int" where
  "num v =
     (case v of
        JNum n \<Rightarrow> n
      | JStr s \<Rightarrow> (case jsNumber s of Some n \<Rightarrow> n | None \<Rightarrow> 0)
      | _ \<Rightarrow> 0)"

text \<open>
  \<open>toUpperCase\<close> and \<open>toLowerCase\<close> on 8-bit code units: the ASCII letters, and for
  lower case the accented capitals 192 to 222 without the multiplication sign 215. The
  upper-case images of 181, 223 and 255 leave the 8-bit range and never meet an ASCII
  letter, so they are left in place.
\<close>

definition toUpperChar :: "char \<Rightarrow> char" where
  "toUpperChar c =
     (let n = (of_char c :: nat) in
      if (97 \<le> n \<and> n \<le> 122) \<or> (224 \<le> n \<and> n \<le> 254 \<and> n \<noteq> 247) then char_of (n - 32) else c)"

definition toLowerChar :: "char \<Rightarrow> char" where
  "toLowerChar c =
     (let n = (of_char c :: nat) in
      if (65 \<le> n \<and> n \<le> 90) \<or> (192 \<le> n \<and> n \<le> 222 \<and> n \<noteq> 215) then char_of (n + 32) else c)"

definition toUpperCase :: "string \<Rightarrow> string" where
  "toUpperCase s = map toUpperChar s"

definition toLowerCase :: "string \<Rightarrow> string" where
  "toLowerCase s = map toLowerChar s"

section \<open>The record store and its side effects\<close>

text \<open>
  The bounded-drugs page works on the documents under \<open>inspections/\<close> and appends to
  \<open>releases/{id}\<close>. The fields are those the release handler reads or writes; a field
  that may be absent is an option. The key of a document is \<open>ident\<close>; the stored field
  \<open>releasedBy\<close>, which holds a user id, is \<open>releasedByUid\<close> here, since the modal has a
  form field \<open>releasedBy\<close> too.
\<close>

record inspection =
  ident :: string
  serialNumber :: "string option"
  drugshopName :: "string option"
  clientTelephone :: "string option"
  boxesImpounded :: jsval
  status :: "string option"
  releasedAt :: "int option"
  releasedByUid :: "string option"
  releasedByEmail :: "string option"
  releasedByName :: "string option"
  lastReleaseNote :: "string option"
  lastReleaseCount :: "int option"

record user =
  uid :: string
  email :: "string option"
  displayName :: "string option"

text \<open>The object pushed under \<open>releases/{id}\<close>.\<close>

record release =
  r_inspectionId :: string
  r_date :: string
  r_clientName :: string
  r_telephone :: string
  r_releasedBy :: string
  r_comment :: string
  r_boxesReleased :: int
  r_createdAt :: string
  r_createdByUid :: string
  r_createdByEmail :: "string option"
  r_createdByName :: "string option"

text \<open>The partial update of \<open>inspections/{id}\<close>; a \<open>null\<close> value removes the field.\<close>

record patch =
  p_boxesImpounded :: jsval
  p_status :: string
  p_releasedAt :: int
  p_releasedBy :: string
  p_releasedByEmail :: "string option"
  p_releasedByName :: "string option"
  p_lastReleaseNote :: "string option"
  p_lastReleaseCount :: int

text \<open>
  The text of the release notice, kept as its parts: the date is printed by the locale of
  the browser, which the model leaves open. A missing serial is printed as a dash.
\<close>

record notice =
  n_shop :: string
  n_count :: int
  n_when :: string
  n_serial :: "string option"
  n_remaining :: int
  n_officer :: string

text \<open>The modal's form state of the bounded-drugs page.\<close>

record modal =
  relDate :: string
  clientName :: string
  telephone :: string
  releasedBy :: string
  comment :: string
  boxesReleased :: string
  ack1 :: bool
  ack2 :: bool
  confirmText :: string

text \<open>
  The inspection pages work on the documents under \<open>ndachecklists/submissions/\<close>: a
  \<open>meta\<close> block, an optional \<open>impoundment\<close> block and, once released, the release form.
\<close>

record meta =
  m_serialNumber :: "string option"
  m_facilityName :: "string option"
  m_drugshopName :: "string option"
  m_drugshopContactPhones :: "string option"
  m_date :: "string option"
  m_createdAt :: jsval

record impoundment =
  i_totalBoxes :: "string option"
  i_impoundmentDate :: "string option"
  i_boxStatus :: "string option"
  i_reminder100SentAt :: "string option"

record releaseForm =
  rf_releaseDate :: string
  rf_clientName :: string
  rf_telephone :: string
  rf_releasedBy :: string
  rf_comment :: string
  rf_boxesReleased :: string

record submission =
  s_id :: string
  s_meta :: meta
  s_impoundment :: "impoundment option"
  s_releaseRecord :: "releaseForm option"

text \<open>
  A message is kept as the builder that makes it and the builder's arguments; the builders
  print dates in the browser's locale.
\<close>

datatype sms =
    ReleaseNotice notice
  | InStoreMsg submission
  | ReleaseMsg submission releaseForm
  | Reminder100Msg submission int

text \<open>
  The side effects of a handler, in the order they are issued: the writes to the record
  store by path and the requests to the SMS gateway with recipients and message.
\<close>

datatype event =
    PushRelease string release
  | PatchInspection string patch
  | PatchBoxStatus string string
  | PatchReleased string releaseForm
  | PatchReminder string string
  | Sms string sms

fun isStoreWrite :: "event \<Rightarrow> bool" where
  "isStoreWrite (Sms to msg) = False"
| "isStoreWrite e = True"

fun isSms :: "event \<Rightarrow> bool" where
  "isSms (Sms to msg) = True"
| "isSms e = False"

record store =
  inspections :: "string \<Rightarrow> inspection option"
  releases :: "string \<Rightarrow> release list"
  submissions :: "string \<Rightarrow> submission option"

text \<open>
  What the outside answers during one run of a handler: whether a store write is refused
  (with the message of the error), whether the gateway request fails, the clock, and
  \<open>new Date(s).toISOString()\<close>, which throws a RangeError on an invalid date.
\<close>

record env =
  pushFails :: "string option"
  updateFails :: "string option"
  smsFails :: "string option"
  nowMs :: int
  nowIso :: string
  isoOf :: "string \<Rightarrow> string option"

text \<open>
  What a handler leaves behind: the store, the side effects issued, the inline error of
  the modal (\<open>setError\<close>), the alerts shown and the console warnings.
\<close>

record outcome =
  o_store :: store
  o_trace :: "event list"
  o_error :: "string option"
  o_alerts :: "string list"
  o_warnings :: "string list"

definition quiet :: "store \<Rightarrow> outcome" where
  "quiet st = \<lparr>o_store = st, o_trace = [], o_error = None, o_alerts = [], o_warnings = []\<rparr>"

text \<open>\<open>x || d\<close> on an optional string: the default replaces a missing or empty value.\<close>

definition orElse :: "string option \<Rightarrow> string \<Rightarrow> string" where
  "orElse x d = (case x of None \<Rightarrow> d | Some s \<Rightarrow> if s = [] then d else s)"

section \<open>Bounded-drugs page: handleSubmitRelease\<close>

text \<open>\<open>telOk\<close> is \<open>/^(\+?\d{7,15})$/\<close> on the telephone without its blanks.\<close>

definition telOk :: "string \<Rightarrow> bool" where
  "telOk t =
     (let s = stripSpaces t;
          d = (if s \<noteq> [] \<and> hd s = CHR ''+'' then tl s else s)
      in list_all isDigit d \<and> 7 \<le> length d \<and> length d \<le> 15)"

definition canConfirm :: "inspection \<Rightarrow> modal \<Rightarrow> bool" where
  "canConfirm target f =
     (let typed = trim (confirmText f);
          serial = trim (orElse (serialNumber target) []);
          okTyped = (toUpperCase typed = ''RELEASE''
                     \<or> (serial \<noteq> [] \<and> toLowerCase typed = toLowerCase serial))
      in ack1 f \<and> ack2 f \<and> okTyped)"

text \<open>
  The guards at the head of the handler, in their order; the result is the message given
  to \<open>setError\<close> by the first guard that fails.
\<close>

definition releaseGuards :: "inspection \<Rightarrow> modal \<Rightarrow> string option" where
  "releaseGuards target f =
     (let available = num (boxesImpounded target);
          count = parseInt (boxesReleased f)
      in if relDate f = [] then Some ''Release date is required.''
         else if trim (clientName f) = [] then Some ''Client name is required.''
         else if trim (telephone f) = [] then Some ''Telephone number is required.''
         else if \<not> telOk (telephone f) then Some ''Enter a valid phone number (e.g. +2567XXXXXXX).''
         else if trim (releasedBy f) = [] then Some ''Released by is required.''
         else (case count of
                 None \<Rightarrow> Some ''Enter a valid number of boxes to release.''
               | Some c \<Rightarrow>
                   if c \<le> 0 then Some ''Enter a valid number of boxes to release.''
                   else if c > available
                     then Some (''You are releasing '' @ jsString c @ '', but only ''
                                @ jsString available @ '' are impounded.'')
                   else if \<not> canConfirm target f
                     then Some ''Complete acknowledgements and type RELEASE or the Serial.''
                   else None))"

definition uidOf :: "user option \<Rightarrow> string" where
  "uidOf me = (case me of None \<Rightarrow> ''anonymous'' | Some u \<Rightarrow> uid u)"

definition emailOf :: "user option \<Rightarrow> string option" where
  "emailOf me = (case me of None \<Rightarrow> None | Some u \<Rightarrow> email u)"

definition nameOf :: "user option \<Rightarrow> string option" where
  "nameOf me = (case me of None \<Rightarrow> None | Some u \<Rightarrow> displayName u)"

definition releaseOf :: "env \<Rightarrow> user option \<Rightarrow> inspection \<Rightarrow> modal \<Rightarrow> int \<Rightarrow> string \<Rightarrow> release" where
  "releaseOf e me target f count d =
     \<lparr>r_inspectionId = ident target, r_date = d, r_clientName = trim (clientName f),
      r_telephone = stripSpaces (telephone f), r_releasedBy = trim (releasedBy f),
      r_comment = trim (comment f), r_boxesReleased = count, r_createdAt = nowIso e,
      r_createdByUid = uidOf me, r_createdByEmail = emailOf me, r_createdByName = nameOf me\<rparr>"

text \<open>Step 2 of the handler: the remaining count, its representation, the next status.\<close>

definition remainingOf :: "int \<Rightarrow> int \<Rightarrow> int" where
  "remainingOf available count = max 0 (available - count)"

definition nextStatusOf :: "int \<Rightarrow> string" where
  "nextStatusOf remaining = (if remaining = 0 then ''Completed'' else ''Pending Review'')"

definition isStr :: "jsval \<Rightarrow> bool" where
  "isStr v = (case v of JStr s \<Rightarrow> True | _ \<Rightarrow> False)"

definition patchOf :: "env \<Rightarrow> user option \<Rightarrow> inspection \<Rightarrow> modal \<Rightarrow> int \<Rightarrow> patch" where
  "patchOf e me target f count =
     (let remaining = remainingOf (num (boxesImpounded target)) count in
      \<lparr>p_boxesImpounded = (if isStr (boxesImpounded target) then JStr (jsString remaining)
                           else JNum remaining),
       p_status = nextStatusOf remaining,
       p_releasedAt = nowMs e,
       p_releasedBy = uidOf me,
       p_releasedByEmail = emailOf me,
       p_releasedByName = nameOf me,
       p_lastReleaseNote = (if trim (comment f) = [] then None else Some (trim (comment f))),
       p_lastReleaseCount = count\<rparr>)"

definition noticeOf :: "inspection \<Rightarrow> modal \<Rightarrow> int \<Rightarrow> notice" where
  "noticeOf target f count =
     \<lparr>n_shop = orElse (drugshopName target) ''Drugshop'',
      n_count = count,
      n_when = relDate f,
      n_serial = (case serialNumber target of None \<Rightarrow> None
                  | Some s \<Rightarrow> if s = [] then None else Some s),
      n_remaining = remainingOf (num (boxesImpounded target)) count,
      n_officer = trim (releasedBy f)\<rparr>"

text \<open>
  The store's two writes. \<open>push\<close> appends under \<open>releases/{id}\<close>; \<open>update\<close> sets the
  listed fields of \<open>inspections/{id}\<close> and creates the document when it is not there.
\<close>

definition pushRelease :: "string \<Rightarrow> release \<Rightarrow> store \<Rightarrow> store" where
  "pushRelease i r st = st\<lparr>releases := (releases st)(i := releases st i @ [r])\<rparr>"

definition blankInspection :: "string \<Rightarrow> inspection" where
  "blankInspection i =
     \<lparr>ident = i, serialNumber = None, drugshopName = None, clientTelephone = None,
      boxesImpounded = JUndef, status = None, releasedAt = None, releasedByUid = None,
      releasedByEmail = None, releasedByName = None, lastReleaseNote = None,
      lastReleaseCount = None\<rparr>"

definition applyPatch :: "patch \<Rightarrow> inspection \<Rightarrow> inspection" where
  "applyPatch p r =
     r\<lparr>boxesImpounded := p_boxesImpounded p, status := Some (p_status p),
       releasedAt := Some (p_releasedAt p), releasedByUid := Some (p_releasedBy p),
       releasedByEmail := p_releasedByEmail p, releasedByName := p_releasedByName p,
       lastReleaseNote := p_lastReleaseNote p, lastReleaseCount := Some (p_lastReleaseCount p)\<rparr>"

definition patchInspection :: "string \<Rightarrow> patch \<Rightarrow> store \<Rightarrow> store" where
  "patchInspection i p st =
     st\<lparr>inspections := (inspections st)
          (i := Some (applyPatch p (case inspections st i of None \<Rightarrow> blankInspection i
                                    | Some r \<Rightarrow> r)))\<rparr>"

text \<open>\<open>e?.message || d\<close>: the message of a caught error, or the default.\<close>

definition messageOr :: "string \<Rightarrow> string \<Rightarrow> string" where
  "messageOr m d = (if m = [] then d else m)"

text \<open>
  The handler. After the guards it runs inside \<open>try\<close>: the release record is pushed, the
  inspection is patched, the SMS is requested in an inner \<open>try\<close> whose \<open>catch\<close> only
  warns, and the alert reports the release. An error of the outer \<open>try\<close> goes to
  \<open>setError\<close> and ends the run. The guards have excluded \<open>NaN\<close> when the count is
  read again, so that branch is never taken.
\<close>

definition handleSubmitRelease ::
    "env \<Rightarrow> user option \<Rightarrow> store \<Rightarrow> inspection option \<Rightarrow> modal \<Rightarrow> outcome" where
  "handleSubmitRelease e me st target f =
     (case target of
        None \<Rightarrow> quiet st
      | Some t \<Rightarrow>
         (case releaseGuards t f of
            Some msg \<Rightarrow> (quiet st)\<lparr>o_error := Some msg\<rparr>
          | None \<Rightarrow>
             (case parseInt (boxesReleased f) of
                None \<Rightarrow> (quiet st)\<lparr>o_error := Some ''Enter a valid number of boxes to release.''\<rparr>
              | Some count \<Rightarrow>
                 (case isoOf e (relDate f) of
                    None \<Rightarrow> (quiet st)\<lparr>o_error := Some ''Invalid time value''\<rparr>
                  | Some d \<Rightarrow>
                     (let rel = releaseOf e me t f count d;
                          p = patchOf e me t f count;
                          fallback = ''Failed to submit release. Please try again.'';
                          w1 = PushRelease (ident t) rel;
                          w2 = PatchInspection (ident t) p;
                          w3 = Sms (stripSpaces (telephone f)) (ReleaseNotice (noticeOf t f count))
                      in case pushFails e of
                           Some m \<Rightarrow>
                             \<lparr>o_store = st, o_trace = [w1], o_error = Some (messageOr m fallback),
                              o_alerts = [], o_warnings = []\<rparr>
                         | None \<Rightarrow>
                            (case updateFails e of
                               Some m \<Rightarrow>
                                 \<lparr>o_store = pushRelease (ident t) rel st, o_trace = [w1, w2],
                                  o_error = Some (messageOr m fallback),
                                  o_alerts = [], o_warnings = []\<rparr>
                             | None \<Rightarrow>
                                 \<lparr>o_store = patchInspection (ident t) p (pushRelease (ident t) rel st),
                                  o_trace = [w1, w2, w3],
                                  o_error = None,
                                  o_alerts = [''Release recorded. Status: '' @ p_status p],
                                  o_warnings = (case smsFails e of None \<Rightarrow> []
                                                | Some m \<Rightarrow> [''SMS failed: '' @ m])\<rparr>))))))"

section \<open>The copy of the page under app/bounded-drugs\<close>

text \<open>
  The second copy of the bounded-drugs page differs in three places: \<open>intendedCount\<close>
  replaces \<open>NaN\<close> by 0 before the guards, there is no type-to-confirm guard, and the
  SMS goes to the provider directly, the alert saying whether it was sent.
\<close>

definition intendedCount :: "modal \<Rightarrow> int" where
  "intendedCount f = (case parseInt (boxesReleased f) of None \<Rightarrow> 0 | Some c \<Rightarrow> c)"

definition releaseGuards_copy :: "inspection \<Rightarrow> modal \<Rightarrow> string option" where
  "releaseGuards_copy target f =
     (let available = num (boxesImpounded target);
          count = intendedCount f
      in if relDate f = [] then Some ''Release date is required.''
         else if trim (clientName f) = [] then Some ''Client name is required.''
         else if trim (telephone f) = [] then Some ''Telephone number is required.''
         else if \<not> telOk (telephone f) then Some ''Enter a valid phone number (e.g. +2567XXXXXXX).''
         else if trim (releasedBy f) = [] then Some ''Released by is required.''
         else if count \<le> 0 then Some ''Enter a valid number of boxes to release.''
         else if count > available
           then Some (''You are releasing '' @ jsString count @ '', but only ''
                      @ jsString available @ '' are impounded.'')
         else None)"

definition handleSubmitRelease_copy ::
    "env \<Rightarrow> user option \<Rightarrow> store \<Rightarrow> inspection option \<Rightarrow> modal \<Rightarrow> outcome" where
  "handleSubmitRelease_copy e me st target f =
     (case target of
        None \<Rightarrow> quiet st
      | Some t \<Rightarrow>
         (case releaseGuards_copy t f of
            Some msg \<Rightarrow> (quiet st)\<lparr>o_error := Some msg\<rparr>
          | None \<Rightarrow>
             (case isoOf e (relDate f) of
                None \<Rightarrow> (quiet st)\<lparr>o_error := Some ''Invalid time value''\<rparr>
              | Some d \<Rightarrow>
                 (let count = intendedCount f;
                      rel = releaseOf e me t f count d;
                      p = patchOf e me t f count;
                      fallback = ''Failed to submit release. Please try again.'';
                      w1 = PushRelease (ident t) rel;
                      w2 = PatchInspection (ident t) p;
                      w3 = Sms (stripSpaces (telephone f)) (ReleaseNotice (noticeOf t f count))
                  in case pushFails e of
                       Some m \<Rightarrow>
                         \<lparr>o_store = st, o_trace = [w1], o_error = Some (messageOr m fallback),
                          o_alerts = [], o_warnings = []\<rparr>
                     | None \<Rightarrow>
                        (case updateFails e of
                           Some m \<Rightarrow>
                             \<lparr>o_store = pushRelease (ident t) rel st, o_trace = [w1, w2],
                              o_error = Some (messageOr m fallback),
                              o_alerts = [], o_warnings = []\<rparr>
                         | None \<Rightarrow>
                             \<lparr>o_store = patchInspection (ident t) p (pushRelease (ident t) rel st),
                              o_trace = [w1, w2, w3],
                              o_error = None,
                              o_alerts = [''Release recorded''
                                          @ (if smsFails e = None then '' and SMS sent''
                                             else '' (SMS failed)'')
                                          @ ''.'' @ [CHR 0x0A] @ ''Status: '' @ p_status p],
                              o_warnings = []\<rparr>)))))"

section \<open>Inspection detail page: recipients\<close>

text \<open>
  \<open>s.split(',')\<close>: the pieces between the commas, one piece for a string without a comma.
\<close>

fun splitComma :: "string \<Rightarrow> string list" where
  "splitComma [] = [[]]"
| "splitComma (c # cs) =
     (if c = CHR '','' then [] # splitComma cs
      else (case splitComma cs of [] \<Rightarrow> [[c]] | x # xs \<Rightarrow> (c # x) # xs))"

definition splitCsv :: "string option \<Rightarrow> string list" where
  "splitCsv s = filter (\<lambda>x. x \<noteq> []) (map trim (splitComma (orElse s [])))"

text \<open>\<open>Array.from(new Set(arr))\<close> keeps the first occurrence of each element, in order.\<close>

fun uniqueFirst :: "string list \<Rightarrow> string list" where
  "uniqueFirst [] = []"
| "uniqueFirst (x # xs) = x # filter (\<lambda>y. y \<noteq> x) (uniqueFirst xs)"

fun joinComma :: "string list \<Rightarrow> string" where
  "joinComma [] = []"
| "joinComma [x] = x"
| "joinComma (x # y # ys) = x @ CHR '','' # joinComma (y # ys)"

definition uniqueCsv :: "string list \<Rightarrow> string" where
  "uniqueCsv arr = joinComma (uniqueFirst arr)"

text \<open>
  \<open>collectOwnerPhones\<close>: the stored contact phones, then the optional extra phone (taken
  when it is not empty), each normalised, the empty results dropped, duplicates removed.
  The list page calls it without the extra phone.
\<close>

definition collectOwnerPhones :: "meta \<Rightarrow> string option \<Rightarrow> string" where
  "collectOwnerPhones m extra =
     (let base = splitCsv (m_drugshopContactPhones m);
          plus = (case extra of None \<Rightarrow> [] | Some x \<Rightarrow> if x = [] then [] else [x]);
          normalized = filter (\<lambda>x. x \<noteq> []) (map normalizeUgPhone (base @ plus))
      in uniqueCsv normalized)"

section \<open>Inspection detail page: saveBoxStatus\<close>

definition boxStatusOf :: "submission option \<Rightarrow> string option" where
  "boxStatusOf item =
     (case item of
        None \<Rightarrow> None
      | Some it \<Rightarrow> (case s_impoundment it of None \<Rightarrow> None | Some imp \<Rightarrow> i_boxStatus imp))"

definition currentStatus :: "submission option \<Rightarrow> string" where
  "currentStatus item = orElse (boxStatusOf item) ''Not yet in store''"

text \<open>
  The store's partial updates below \<open>ndachecklists/submissions/{id}\<close>. A path that is
  not there is created by the update.
\<close>

definition blankMeta :: meta where
  "blankMeta =
     \<lparr>m_serialNumber = None, m_facilityName = None, m_drugshopName = None,
      m_drugshopContactPhones = None, m_date = None, m_createdAt = JUndef\<rparr>"

definition blankImpoundment :: impoundment where
  "blankImpoundment =
     \<lparr>i_totalBoxes = None, i_impoundmentDate = None, i_boxStatus = None,
      i_reminder100SentAt = None\<rparr>"

definition blankSubmission :: "string \<Rightarrow> submission" where
  "blankSubmission i =
     \<lparr>s_id = i, s_meta = blankMeta, s_impoundment = None, s_releaseRecord = None\<rparr>"

definition submissionAt :: "store \<Rightarrow> string \<Rightarrow> submission" where
  "submissionAt st i = (case submissions st i of None \<Rightarrow> blankSubmission i | Some s \<Rightarrow> s)"

definition impoundmentOf :: "submission \<Rightarrow> impoundment" where
  "impoundmentOf s = (case s_impoundment s of None \<Rightarrow> blankImpoundment | Some imp \<Rightarrow> imp)"

definition patchBoxStatus :: "string \<Rightarrow> string \<Rightarrow> store \<Rightarrow> store" where
  "patchBoxStatus i b st =
     (let s = submissionAt st i in
      st\<lparr>submissions := (submissions st)
           (i := Some (s\<lparr>s_impoundment := Some ((impoundmentOf s)\<lparr>i_boxStatus := Some b\<rparr>)\<rparr>))\<rparr>)"

definition patchReleased :: "string \<Rightarrow> releaseForm \<Rightarrow> store \<Rightarrow> store" where
  "patchReleased i form st =
     (let s = submissionAt st i in
      st\<lparr>submissions := (submissions st)
           (i := Some (s\<lparr>s_impoundment := Some ((impoundmentOf s)\<lparr>i_boxStatus := Some ''Released''\<rparr>),
                          s_releaseRecord := Some form\<rparr>))\<rparr>)"


text \<open>
  What the status editor leaves behind: the outcome, the draft of the select box, and the
  error that leaves the handler when the store refuses the update (its \<open>try\<close> has a
  \<open>finally\<close> and no \<open>catch\<close>).
\<close>

record saved =
  sv_outcome :: outcome
  sv_draft :: string
  sv_thrown :: "string option"

text \<open>
  \<open>saveBoxStatus\<close>, with the route's id, the loaded record \<open>item\<close> and the draft. The
  two guards come first: a record that is Released is left alone, and Released is not
  saved from here. Then the status is written, and for In Store the owner is notified,
  an SMS failure ending in an alert.
\<close>

definition saveBoxStatus ::
    "env \<Rightarrow> store \<Rightarrow> string option \<Rightarrow> submission option \<Rightarrow> string \<Rightarrow> saved" where
  "saveBoxStatus e st rid item statusDraft =
     (case (rid, item) of
        (Some i, Some it) \<Rightarrow>
          if i = [] then \<lparr>sv_outcome = quiet st, sv_draft = statusDraft, sv_thrown = None\<rparr>
          else if currentStatus item = ''Released''
            then \<lparr>sv_outcome = (quiet st)\<lparr>o_alerts := [''Status is Released and cannot be changed.'']\<rparr>,
                  sv_draft = ''Released'', sv_thrown = None\<rparr>
          else if statusDraft = ''Released''
            then \<lparr>sv_outcome = (quiet st)\<lparr>o_alerts :=
                     [''Use the Release button to complete release workflow and notify the client.'']\<rparr>,
                  sv_draft = currentStatus item, sv_thrown = None\<rparr>
          else (case updateFails e of
              Some m \<Rightarrow>
                \<lparr>sv_outcome = (quiet st)\<lparr>o_trace := [PatchBoxStatus i statusDraft]\<rparr>,
                 sv_draft = statusDraft, sv_thrown = Some m\<rparr>
            | None \<Rightarrow>
               (let st' = patchBoxStatus i statusDraft st;
                    toCsv = collectOwnerPhones (s_meta it) None;
                    msg = InStoreMsg (it\<lparr>s_impoundment :=
                            Some ((impoundmentOf it)\<lparr>i_boxStatus := Some ''In Store''\<rparr>)\<rparr>)
                in if statusDraft = ''In Store'' \<and> toCsv \<noteq> []
                   then \<lparr>sv_outcome =
                           \<lparr>o_store = st',
                            o_trace = [PatchBoxStatus i statusDraft, Sms toCsv msg],
                            o_error = None,
                            o_alerts = (case smsFails e of
                                None \<Rightarrow> [''Status saved. Owner notified (In Store).'']
                              | Some m \<Rightarrow> [''Status saved, but SMS failed: ''
                                            @ messageOr m ''Unknown error'']),
                            o_warnings = (case smsFails e of
                                None \<Rightarrow> []
                              | Some m \<Rightarrow> [''SMS In Store error: '' @ messageOr m []])\<rparr>,
                         sv_draft = statusDraft, sv_thrown = None\<rparr>
                   else \<lparr>sv_outcome = (quiet st')\<lparr>o_trace := [PatchBoxStatus i statusDraft]\<rparr>,
                         sv_draft = statusDraft, sv_thrown = None\<rparr>))
      | _ \<Rightarrow> \<lparr>sv_outcome = quiet st, sv_draft = statusDraft, sv_thrown = None\<rparr>)"

section \<open>Inspection detail page: validateRelease and handleReleaseSubmit\<close>

text \<open>The list of messages of the form's validation; \<open>/^\d+$/\<close> is a run of digits.\<close>

definition validateRelease :: "releaseForm \<Rightarrow> bool \<Rightarrow> string list" where
  "validateRelease form consent =
     (if rf_releaseDate form = [] then [''Release Date is required''] else [])
     @ (if trim (rf_clientName form) = [] then [''Client Name is required''] else [])
     @ (if trim (rf_telephone form) = [] then [''Telephone is required''] else [])
     @ (if trim (rf_releasedBy form) = [] then [''Released By is required''] else [])
     @ (if trim (rf_boxesReleased form) = []
           \<or> \<not> (rf_boxesReleased form \<noteq> [] \<and> list_all isDigit (rf_boxesReleased form))
        then [''Boxes Released must be a number''] else [])
     @ (if \<not> consent then [''Consent is required''] else [])"

text \<open>
  \<open>handleReleaseSubmit\<close>. After the validation the work runs in one \<open>try\<close>: the SMS is
  requested first and must succeed, then the record is set to Released together with
  the release form. Any error ends in the alert of the \<open>catch\<close>. The alert of the
  validation lists the messages after a bullet each, written here as an asterisk.
\<close>

definition handleReleaseSubmit ::
    "env \<Rightarrow> store \<Rightarrow> string option \<Rightarrow> submission option \<Rightarrow> releaseForm \<Rightarrow> bool \<Rightarrow> outcome" where
  "handleReleaseSubmit e st rid item form consent =
     (let errors = validateRelease form consent in
      if errors \<noteq> []
        then (quiet st)\<lparr>o_alerts := [''Fix the following:'' @ concat (map (\<lambda>m. CHR 0x0A # ''* '' @ m) errors)]\<rparr>
      else (case (rid, item) of
          (Some i, Some it) \<Rightarrow>
            if i = [] then quiet st
            else
             (let toCsv = collectOwnerPhones (s_meta it) (Some (rf_telephone form));
                  w1 = Sms toCsv (ReleaseMsg it form);
                  w2 = PatchReleased i form
              in if toCsv = []
                 then (quiet st)\<lparr>o_alerts := [''Release failed: No facility contact phone available.'']\<rparr>
                 else (case smsFails e of
                     Some m \<Rightarrow>
                       (quiet st)\<lparr>o_trace := [w1],
                                  o_alerts := [''Release failed: '' @ messageOr m ''Unknown error'']\<rparr>
                   | None \<Rightarrow>
                      (case updateFails e of
                         Some m \<Rightarrow>
                           (quiet st)\<lparr>o_trace := [w1, w2],
                                      o_alerts := [''Release failed: '' @ messageOr m ''Unknown error'']\<rparr>
                       | None \<Rightarrow>
                           (quiet (patchReleased i form st))
                             \<lparr>o_trace := [w1, w2], o_alerts := [''Released and SMS sent.'']\<rparr>)))
        | _ \<Rightarrow> quiet st))"

section \<open>Inspections list page: the automatic reminder\<close>

text \<open>
  What the outside answers during one pass over the list: for each record whether the
  gateway request and the store update fail, the reading of a date string in milliseconds
  (\<open>new Date(s).getTime()\<close>, without a value when it is not finite), and the string
  given by \<open>nowIso()\<close>, taken as the same during one pass.
\<close>

record passEnv =
  smsFailsFor :: "string \<Rightarrow> string option"
  patchFailsFor :: "string \<Rightarrow> string option"
  dateMs :: "string \<Rightarrow> int option"
  clockIso :: string

text \<open>
  The state a pass works on: the store, the ids reminded in this session
  (\<open>remindedIds\<close>), the side effects issued and the console warnings.
\<close>

record passState =
  ps_store :: store
  ps_reminded :: "string list"
  ps_trace :: "event list"
  ps_warnings :: "string list"






section \<open>Inspections list page: loadMore\<close>

definition PAGE_SIZE :: nat where
  "PAGE_SIZE = 24"











section \<open>The record store's ordered query\<close>

text \<open>
  The query \<open>orderByChild('meta/createdAt'), endAt(bound), limitToLast(PAGE_SIZE)\<close> of
  the realtime database over the children of \<open>ndachecklists/submissions\<close>. The database
  is an outside service; the query follows its documented behaviour. Children are
  ordered by the value of the child key: missing values first, then false, true, numbers
  by value, strings in lexicographic order, objects last, and equal values by key.
  \<open>endAt\<close> keeps the children whose value is not above the bound, the bound included;
  \<open>limitToLast\<close> keeps the last ones of the order.
\<close>

fun strLess :: "string \<Rightarrow> string \<Rightarrow> bool" where
  "strLess [] [] = False"
| "strLess [] (b # bs) = True"
| "strLess (a # as) [] = False"
| "strLess (a # as) (b # bs) =
     ((of_char a :: nat) < of_char b \<or> (a = b \<and> strLess as bs))"

definition valRank :: "jsval \<Rightarrow> nat" where
  "valRank v =
     (case v of JUndef \<Rightarrow> 0 | JNull \<Rightarrow> 0 | JBool b \<Rightarrow> (if b then 2 else 1)
      | JNum n \<Rightarrow> 3 | JStr s \<Rightarrow> 4 | JObj \<Rightarrow> 5)"

definition valLess :: "jsval \<Rightarrow> jsval \<Rightarrow> bool" where
  "valLess v w =
     (valRank v < valRank w
      \<or> (case (v, w) of
            (JNum a, JNum b) \<Rightarrow> a < b
          | (JStr a, JStr b) \<Rightarrow> strLess a b
          | _ \<Rightarrow> False))"

definition childLess :: "submission \<Rightarrow> submission \<Rightarrow> bool" where
  "childLess a b =
     (valLess (m_createdAt (s_meta a)) (m_createdAt (s_meta b))
      \<or> (\<not> valLess (m_createdAt (s_meta b)) (m_createdAt (s_meta a))
          \<and> strLess (s_id a) (s_id b)))"

fun insertChild :: "submission \<Rightarrow> submission list \<Rightarrow> submission list" where
  "insertChild x [] = [x]"
| "insertChild x (y # ys) = (if childLess y x then y # insertChild x ys else x # y # ys)"

definition orderChildren :: "submission list \<Rightarrow> submission list" where
  "orderChildren ds = foldr insertChild ds []"

definition limitToLast :: "nat \<Rightarrow> 'a list \<Rightarrow> 'a list" where
  "limitToLast n xs = drop (length xs - n) xs"

text \<open>The children that \<open>endAt(bound)\<close> keeps.\<close>

definition withinBound :: "jsval \<Rightarrow> submission \<Rightarrow> bool" where
  "withinBound bound d = (\<not> valLess bound (m_createdAt (s_meta d)))"

definition queryEndAt :: "submission list \<Rightarrow> jsval \<Rightarrow> submission list" where
  "queryEndAt ds bound =
     limitToLast PAGE_SIZE
       (orderChildren (filter (withinBound bound) ds))"







section \<open>The SMS proxy route: POST /api/sms\<close>











section \<open>Example data\<close>

text \<open>
  Concrete records, forms and answers of the outside, used to run the handlers: a shop
  with five impounded boxes stored as the string \<open>5\<close>, and a submission that is in store
  since January while the clock stands in July.
\<close>

definition exDates :: "string \<Rightarrow> int option" where
  "exDates s =
     (if s = ''2024-01-10'' then Some 1704844800000
      else if s = ''2024-07-01T08:00:00.000Z'' then Some 1719820800000
      else None)"

definition exEnv :: env where
  "exEnv =
     \<lparr>pushFails = None, updateFails = None, smsFails = None, nowMs = 1719820800000,
      nowIso = ''2024-07-01T08:00:00.000Z'',
      isoOf = (\<lambda>s. if s = ''2024-07-01'' then Some ''2024-07-01T00:00:00.000Z'' else None)\<rparr>"

definition exRow :: inspection where
  "exRow = (blankInspection ''k1'')\<lparr>serialNumber := Some ''SN-7'', drugshopName := Some ''Hope'',
              boxesImpounded := JStr ''5''\<rparr>"

definition exModal :: modal where
  "exModal =
     \<lparr>relDate = ''2024-07-01'', clientName = ''Amina'', telephone = ''0712345678'',
      releasedBy = ''Okello'', comment = [], boxesReleased = ''5'', ack1 = True, ack2 = True,
      confirmText = ''release''\<rparr>"

definition exMeta :: meta where
  "exMeta = blankMeta\<lparr>m_serialNumber := Some ''SN-7'', m_drugshopName := Some ''Hope'',
              m_drugshopContactPhones := Some ''0712345678'', m_date := Some ''2024-01-10'',
              m_createdAt := JNum 1704844800000\<rparr>"

definition exSubmission :: "string \<Rightarrow> submission" where
  "exSubmission b =
     \<lparr>s_id = ''k1'', s_meta = exMeta,
      s_impoundment = Some (blankImpoundment\<lparr>i_totalBoxes := Some ''5'',
                              i_impoundmentDate := Some ''2024-01-10'', i_boxStatus := Some b\<rparr>),
      s_releaseRecord = None\<rparr>"

definition exStore :: "string \<Rightarrow> store" where
  "exStore b =
     \<lparr>inspections = (\<lambda>i. if i = ''k1'' then Some exRow else None),
      releases = (\<lambda>i. []),
      submissions = (\<lambda>i. if i = ''k1'' then Some (exSubmission b) else None)\<rparr>"

definition exForm :: releaseForm where
  "exForm =
     \<lparr>rf_releaseDate = ''2024-07-01'', rf_clientName = ''Amina'', rf_telephone = ''0712345678'',
      rf_releasedBy = ''Okello'', rf_comment = [], rf_boxesReleased = ''5''\<rparr>"

definition exPassEnv :: passEnv where
  "exPassEnv =
     \<lparr>smsFailsFor = (\<lambda>i. None), patchFailsFor = (\<lambda>i. None), dateMs = exDates,
      clockIso = ''2024-07-01T08:00:00.000Z''\<rparr>"

definition exPassState :: passState where
  "exPassState =
     \<lparr>ps_store = exStore ''In Store'', ps_reminded = [], ps_trace = [], ps_warnings = []\<rparr>"

definition exSmsDown :: env where
  "exSmsDown = exEnv\<lparr>smsFails := Some ''SMS failed (502)''\<rparr>"

definition exNoPhone :: submission where
  "exNoPhone = (exSubmission ''In Store'')\<lparr>s_meta := exMeta\<lparr>m_drugshopContactPhones := None\<rparr>\<rparr>"

definition exReminded :: submission where
  "exReminded =
     (exSubmission ''In Store'')\<lparr>s_impoundment :=
        Some (blankImpoundment\<lparr>i_totalBoxes := Some ''5'', i_impoundmentDate := Some ''2024-01-10'',
                i_boxStatus := Some ''In Store'',
                i_reminder100SentAt := Some ''2024-07-01T08:00:00.000Z''\<rparr>)\<rparr>"





section \<open>Properties of the phone normaliser\<close>

lemma stripSpaces_idem: "stripSpaces (stripSpaces p) = stripSpaces p"
  by (simp add: stripSpaces_def)

lemma stripSpaces_drop: "stripSpaces (drop n (stripSpaces p)) = drop n (stripSpaces p)"
  unfolding stripSpaces_def
  by (rule filter_True) (auto dest: in_set_dropD)


lemma plus_not_space: "\<not> isSpace CHR ''+''"
  by (simp add: isSpace_def)

lemma bare_to_canonical: "reBare s \<Longrightarrow> ugReCanonical (CHR ''+'' # s)"
  by (simp add: reBare_def ugReCanonical_def)

lemma local_to_canonical:
  assumes "reLocal s"
  shows "ugReCanonical (''+256'' @ drop 1 s)"
proof -
  from assms have len: "length s = 10" and pre: "take 2 s = ''07''"
    and digs: "list_all isDigit (drop 2 s)"
    by (simp_all add: reLocal_def)
  from len obtain a b r where s: "s = a # b # r"
    by (cases s; cases "tl s") auto
  with pre have "b = CHR ''7''" by simp
  with s len digs show ?thesis
    by (simp add: ugReCanonical_def)
qed

lemma canonical_fixed:
  "ugReCanonical s \<Longrightarrow> stripSpaces s = s \<Longrightarrow> normalizeUgPhone s = s"
  by (simp add: normalizeUgPhone_def)

text \<open>
  Claim C6. Normalising twice is normalising once: for every input string \<open>x\<close>,
  \<open>normalizeUgPhone (normalizeUgPhone x) = normalizeUgPhone x\<close>. Each of the three
  rewritten forms is canonical and free of blanks, and a string that matches no form
  comes back without its blanks and matches no form again.
\<close>

theorem normalizeUgPhone_idempotent:
  "normalizeUgPhone (normalizeUgPhone x) = normalizeUgPhone x"
proof -
  define s where "s = stripSpaces x"
  have ss: "stripSpaces s = s" by (simp add: s_def stripSpaces_idem)
  consider (canon) "ugReCanonical s"
    | (bare) "\<not> ugReCanonical s" "reBare s"
    | (loc) "\<not> ugReCanonical s" "\<not> reBare s" "reLocal s"
    | (other) "\<not> ugReCanonical s" "\<not> reBare s" "\<not> reLocal s"
    by blast
  then show ?thesis
  proof cases
    case canon
    then have "normalizeUgPhone x = s" by (simp add: normalizeUgPhone_def s_def)
    with canon ss show ?thesis by (simp add: canonical_fixed)
  next
    case bare
    then have r: "normalizeUgPhone x = CHR ''+'' # s"
      by (simp add: normalizeUgPhone_def s_def)
    have "stripSpaces (CHR ''+'' # s) = CHR ''+'' # s"
      using ss plus_not_space by (simp add: stripSpaces_def)
    with bare r show ?thesis by (simp add: canonical_fixed bare_to_canonical)
  next
    case loc
    define r where "r = ''+256'' @ drop 1 s"
    from loc have nx: "normalizeUgPhone x = r"
      by (simp add: normalizeUgPhone_def s_def r_def)
    have "stripSpaces (drop 1 s) = drop 1 s"
      unfolding s_def by (rule stripSpaces_drop)
    then have sr: "stripSpaces r = r"
      by (simp add: r_def stripSpaces_def isSpace_def)
    from loc have "ugReCanonical r"
      unfolding r_def by (intro local_to_canonical)
    then have "normalizeUgPhone r = r" using sr by (rule canonical_fixed)
    with nx show ?thesis by simp
  next
    case other
    then have "normalizeUgPhone x = s" by (simp add: normalizeUgPhone_def s_def)
    moreover from other ss have "normalizeUgPhone s = s" by (simp add: normalizeUgPhone_def)
    ultimately show ?thesis by simp
  qed
qed








section \<open>Evaluation of the example data\<close>

lemmas ex_defs = exEnv_def exRow_def exModal_def exMeta_def exSubmission_def exStore_def
  exForm_def exSmsDown_def exNoPhone_def exReminded_def exPassEnv_def exPassState_def exDates_def blankMeta_def blankImpoundment_def
  blankInspection_def blankSubmission_def

lemmas phone_defs = collectOwnerPhones_def splitCsv_def uniqueCsv_def orElse_def trim_def
  isSpace_def isDigit_def normalizeUgPhone_def stripSpaces_def ugReCanonical_def reBare_def
  reLocal_def

section \<open>Properties of the status editor\<close>

lemma currentStatus_Released:
  "currentStatus item = ''Released'' \<longleftrightarrow> boxStatusOf item = Some ''Released''"
  by (auto simp: currentStatus_def orElse_def split: option.splits)

lemma boxStatus_patchBoxStatus:
  "boxStatusOf (submissions (patchBoxStatus i b st) j) =
     (if j = i then Some b else boxStatusOf (submissions st j))"
  by (simp add: patchBoxStatus_def boxStatusOf_def Let_def)

lemma boxStatus_patchReleased:
  "boxStatusOf (submissions (patchReleased i form st) j) =
     (if j = i then Some ''Released'' else boxStatusOf (submissions st j))"
  by (simp add: patchReleased_def boxStatusOf_def Let_def)

lemma save_guard_current:
  assumes "currentStatus item = ''Released''"
  shows "o_store (sv_outcome (saveBoxStatus e st rid item d)) = st
       \<and> o_trace (sv_outcome (saveBoxStatus e st rid item d)) = []
       \<and> sv_thrown (saveBoxStatus e st rid item d) = None"
  using assms by (cases rid; cases item) (simp_all add: saveBoxStatus_def quiet_def)

lemma save_guard_draft:
  "o_store (sv_outcome (saveBoxStatus e st rid item ''Released'')) = st
       \<and> o_trace (sv_outcome (saveBoxStatus e st rid item ''Released'')) = []"
  by (cases rid; cases item) (simp_all add: saveBoxStatus_def quiet_def)

lemma save_store_cases:
  "o_store (sv_outcome (saveBoxStatus e st rid item d)) = st
   \<or> (d \<noteq> ''Released'' \<and> (\<exists>i. o_store (sv_outcome (saveBoxStatus e st rid item d)) = patchBoxStatus i d st))"
  by (cases rid; cases item; cases "updateFails e")
    (auto simp: saveBoxStatus_def quiet_def Let_def)

lemma save_never_releases:
  assumes "boxStatusOf (submissions (o_store (sv_outcome (saveBoxStatus e st rid item d))) j) = Some ''Released''"
  shows "boxStatusOf (submissions st j) = Some ''Released''"
proof -
  from save_store_cases [of e st rid item d] show ?thesis
  proof
    assume "o_store (sv_outcome (saveBoxStatus e st rid item d)) = st"
    with assms show ?thesis by simp
  next
    assume "d \<noteq> ''Released'' \<and> (\<exists>i. o_store (sv_outcome (saveBoxStatus e st rid item d)) = patchBoxStatus i d st)"
    then obtain i where d: "d \<noteq> ''Released''"
      and s: "o_store (sv_outcome (saveBoxStatus e st rid item d)) = patchBoxStatus i d st" by blast
    from assms s d show ?thesis
      by (simp add: boxStatus_patchBoxStatus split: if_splits)
  qed
qed

lemma save_trace_not_released:
  "PatchBoxStatus i b \<in> set (o_trace (sv_outcome (saveBoxStatus e st rid item d))) \<Longrightarrow> b \<noteq> ''Released''"
  by (cases rid; cases item; cases "updateFails e")
    (auto simp: saveBoxStatus_def quiet_def Let_def split: if_splits)

lemma release_sets_released:
  assumes "o_alerts (handleReleaseSubmit e st (Some i) item form consent) = [''Released and SMS sent.'']"
  shows "boxStatusOf (submissions (o_store (handleReleaseSubmit e st (Some i) item form consent)) i) = Some ''Released''"
  using assms
  by (cases item; cases "smsFails e"; cases "updateFails e")
    (auto simp: handleReleaseSubmit_def quiet_def Let_def boxStatus_patchReleased
      split: if_splits)

lemma release_keeps_released:
  assumes "boxStatusOf (submissions st j) = Some ''Released''"
  shows "boxStatusOf (submissions (o_store (handleReleaseSubmit e st rid item form consent)) j)
       = Some ''Released''"
  using assms
  by (cases rid; cases item; cases "smsFails e"; cases "updateFails e")
    (auto simp: handleReleaseSubmit_def quiet_def Let_def boxStatus_patchReleased
      split: if_splits)

text \<open>
  Claim C1. In the status editor of the inspection detail page a record whose loaded
  box status is Released is never written: \<open>saveBoxStatus\<close> returns with the store
  as it was, no side effect and no error, whatever the draft. The editor also refuses to
  save the draft Released. So no run of \<open>saveBoxStatus\<close> makes a record Released that
  was not, and no status it writes is Released; the record becomes Released in the
  release workflow, \<open>handleReleaseSubmit\<close>, when that reports success, and a record that
  is Released in the store stays Released under that workflow. The guard of the editor
  reads the record as the page has loaded it.
\<close>

theorem saveBoxStatus_released_terminal:
  "(currentStatus item = ''Released'' \<longrightarrow>
      o_store (sv_outcome (saveBoxStatus e st rid item d)) = st
      \<and> o_trace (sv_outcome (saveBoxStatus e st rid item d)) = []
      \<and> sv_thrown (saveBoxStatus e st rid item d) = None)
   \<and> o_store (sv_outcome (saveBoxStatus e st rid item ''Released'')) = st
   \<and> o_trace (sv_outcome (saveBoxStatus e st rid item ''Released'')) = []
   \<and> (boxStatusOf (submissions (o_store (sv_outcome (saveBoxStatus e st rid item d))) j) = Some ''Released''
        \<longrightarrow> boxStatusOf (submissions st j) = Some ''Released'')
   \<and> (PatchBoxStatus i b \<in> set (o_trace (sv_outcome (saveBoxStatus e st rid item d)))
        \<longrightarrow> b \<noteq> ''Released'')
   \<and> (o_alerts (handleReleaseSubmit e st (Some i) item form consent) = [''Released and SMS sent.'']
        \<longrightarrow> boxStatusOf (submissions (o_store (handleReleaseSubmit e st (Some i) item form consent)) i)
              = Some ''Released'')
   \<and> (boxStatusOf (submissions st j) = Some ''Released''
        \<longrightarrow> boxStatusOf (submissions (o_store (handleReleaseSubmit e st rid item form consent)) j)
              = Some ''Released'')"
  using save_guard_current [of item e st rid d] save_guard_draft [of e st rid item]
    save_never_releases [of e st rid item d j] save_trace_not_released [of i b e st rid item d]
    release_sets_released [of e st i item form consent]
    release_keeps_released [of st j e rid item form consent]
  by blast

theorem saveBoxStatus_released_terminal_witness:
  "currentStatus (Some (exSubmission ''Released'')) = ''Released''
   \<and> o_store (sv_outcome (saveBoxStatus exEnv (exStore ''Released'') (Some ''k1'')
         (Some (exSubmission ''Released'')) ''In Store'')) = exStore ''Released''
   \<and> o_trace (sv_outcome (saveBoxStatus exEnv (exStore ''Released'') (Some ''k1'')
         (Some (exSubmission ''Released'')) ''In Store'')) = []
   \<and> boxStatusOf (submissions (exStore ''Released'') ''k1'') = Some ''Released''
   \<and> PatchBoxStatus ''k1'' ''In Store'' \<in> set (o_trace (sv_outcome (saveBoxStatus exEnv
         (exStore ''Not yet in store'') (Some ''k1'') (Some (exSubmission ''Not yet in store'')) ''In Store'')))
   \<and> ''In Store'' \<noteq> ''Released''
   \<and> o_alerts (handleReleaseSubmit exEnv (exStore ''In Store'') (Some ''k1'')
         (Some (exSubmission ''In Store'')) exForm True) = [''Released and SMS sent.'']
   \<and> boxStatusOf (submissions (o_store (handleReleaseSubmit exEnv (exStore ''In Store'') (Some ''k1'')
         (Some (exSubmission ''In Store'')) exForm True)) ''k1'') = Some ''Released''
   \<and> boxStatusOf (submissions (o_store (handleReleaseSubmit exEnv (exStore ''Released'') (Some ''k1'')
         (Some (exSubmission ''Released'')) exForm True)) ''k1'') = Some ''Released''"
proof -
  have c: "currentStatus (Some (exSubmission ''Released'')) = ''Released''"
    by (simp add: currentStatus_def boxStatusOf_def orElse_def ex_defs)
  have b: "boxStatusOf (submissions (exStore ''Released'') ''k1'') = Some ''Released''"
    by (simp add: boxStatusOf_def ex_defs)
  have p: "PatchBoxStatus ''k1'' ''In Store'' \<in> set (o_trace (sv_outcome (saveBoxStatus exEnv
         (exStore ''Not yet in store'') (Some ''k1'') (Some (exSubmission ''Not yet in store'')) ''In Store'')))"
    by (simp add: saveBoxStatus_def currentStatus_def boxStatusOf_def quiet_def Let_def ex_defs phone_defs)
  have a: "o_alerts (handleReleaseSubmit exEnv (exStore ''In Store'') (Some ''k1'')
         (Some (exSubmission ''In Store'')) exForm True) = [''Released and SMS sent.'']"
    by (simp add: handleReleaseSubmit_def validateRelease_def quiet_def Let_def ex_defs phone_defs)
  show ?thesis
    using c b p a
      saveBoxStatus_released_terminal [of "Some (exSubmission ''Released'')" exEnv "exStore ''Released''"
        "Some ''k1''" "''In Store''" "''k1''" "''k1''" "''In Store''" exForm True]
      saveBoxStatus_released_terminal [of "Some (exSubmission ''Not yet in store'')" exEnv
        "exStore ''Not yet in store''" "Some ''k1''" "''In Store''" "''k1''" "''k1''" "''In Store''" exForm True]
      saveBoxStatus_released_terminal [of "Some (exSubmission ''In Store'')" exEnv
        "exStore ''In Store''" "Some ''k1''" "''In Store''" "''k1''" "''k1''" "''In Store''" exForm True]
    by simp
qed


section \<open>Order of the side effects of a release\<close>

lemma guards_None:
  assumes "releaseGuards t f = None"
  shows "\<exists>c. parseInt (boxesReleased f) = Some c \<and> 0 < c \<and> c \<le> num (boxesImpounded t)"
  using assms
  by (cases "parseInt (boxesReleased f)") (auto simp: releaseGuards_def Let_def split: if_splits)


lemma submit_success:
  assumes "releaseGuards t f = None" "isoOf e (relDate f) = Some d"
    "pushFails e = None" "updateFails e = None" "parseInt (boxesReleased f) = Some c"
  shows "handleSubmitRelease e me st (Some t) f =
     \<lparr>o_store = patchInspection (ident t) (patchOf e me t f c)
                  (pushRelease (ident t) (releaseOf e me t f c d) st),
      o_trace = [PushRelease (ident t) (releaseOf e me t f c d),
                 PatchInspection (ident t) (patchOf e me t f c),
                 Sms (stripSpaces (telephone f)) (ReleaseNotice (noticeOf t f c))],
      o_error = None,
      o_alerts = [''Release recorded. Status: '' @ p_status (patchOf e me t f c)],
      o_warnings = (case smsFails e of None \<Rightarrow> [] | Some m \<Rightarrow> [''SMS failed: '' @ m])\<rparr>"
  using assms by (simp add: handleSubmitRelease_def Let_def)

lemma submit_copy_success:
  assumes "releaseGuards_copy t f = None" "isoOf e (relDate f) = Some d"
    "pushFails e = None" "updateFails e = None"
  shows "handleSubmitRelease_copy e me st (Some t) f =
     \<lparr>o_store = patchInspection (ident t) (patchOf e me t f (intendedCount f))
                  (pushRelease (ident t) (releaseOf e me t f (intendedCount f) d) st),
      o_trace = [PushRelease (ident t) (releaseOf e me t f (intendedCount f) d),
                 PatchInspection (ident t) (patchOf e me t f (intendedCount f)),
                 Sms (stripSpaces (telephone f)) (ReleaseNotice (noticeOf t f (intendedCount f)))],
      o_error = None,
      o_alerts = [''Release recorded''
                  @ (if smsFails e = None then '' and SMS sent'' else '' (SMS failed)'')
                  @ ''.'' @ [CHR 0x0A] @ ''Status: '' @ p_status (patchOf e me t f (intendedCount f))],
      o_warnings = []\<rparr>"
  using assms by (simp add: handleSubmitRelease_copy_def Let_def)

lemma submit_sms_last:
  assumes "Sms to n \<in> set (o_trace (handleSubmitRelease e me st tgt f))"
  shows "\<exists>i r p. o_trace (handleSubmitRelease e me st tgt f) = [PushRelease i r, PatchInspection i p, Sms to n]"
  using assms
  by (cases tgt; cases "pushFails e"; cases "updateFails e")
    (auto simp: handleSubmitRelease_def quiet_def Let_def split: option.splits)

lemma submit_copy_sms_last:
  assumes "Sms to n \<in> set (o_trace (handleSubmitRelease_copy e me st tgt f))"
  shows "\<exists>i r p. o_trace (handleSubmitRelease_copy e me st tgt f) = [PushRelease i r, PatchInspection i p, Sms to n]"
  using assms
  by (cases tgt; cases "pushFails e"; cases "updateFails e")
    (auto simp: handleSubmitRelease_copy_def quiet_def Let_def split: option.splits)

lemma detail_sms_first:
  assumes "PatchReleased i fm \<in> set (o_trace (handleReleaseSubmit e st rid item form consent))"
  shows "smsFails e = None \<and> (\<exists>to m. o_trace (handleReleaseSubmit e st rid item form consent) = [Sms to m, PatchReleased i fm])"
  using assms
  by (cases rid; cases item; cases "smsFails e"; cases "updateFails e")
    (auto simp: handleReleaseSubmit_def quiet_def Let_def split: if_splits)

lemma detail_sms_failure_aborts:
  assumes "smsFails e = Some m"
  shows "o_store (handleReleaseSubmit e st rid item form consent) = st
       \<and> filter isStoreWrite (o_trace (handleReleaseSubmit e st rid item form consent)) = []"
  using assms
  by (cases rid; cases item)
    (auto simp: handleReleaseSubmit_def quiet_def Let_def split: if_splits)


text \<open>
  Claim C2, as stated, fails for the release submission of the inspection detail page.
  There the SMS is requested before the store is written, and when the gateway fails
  the submission ends with \<open>Release failed\<close> and the store as it was.
\<close>

theorem detail_release_sms_first_counterexample:
  "o_trace (handleReleaseSubmit exEnv (exStore ''In Store'') (Some ''k1'')
          (Some (exSubmission ''In Store'')) exForm True)
     = [Sms ''+256712345678'' (ReleaseMsg (exSubmission ''In Store'') exForm),
        PatchReleased ''k1'' exForm]
   \<and> o_trace (handleReleaseSubmit exSmsDown (exStore ''In Store'') (Some ''k1'')
          (Some (exSubmission ''In Store'')) exForm True)
     = [Sms ''+256712345678'' (ReleaseMsg (exSubmission ''In Store'') exForm)]
   \<and> o_store (handleReleaseSubmit exSmsDown (exStore ''In Store'') (Some ''k1'')
          (Some (exSubmission ''In Store'')) exForm True) = exStore ''In Store''
   \<and> o_alerts (handleReleaseSubmit exSmsDown (exStore ''In Store'') (Some ''k1'')
          (Some (exSubmission ''In Store'')) exForm True) = [''Release failed: SMS failed (502)'']"
  by (simp add: handleReleaseSubmit_def validateRelease_def quiet_def Let_def messageOr_def ex_defs phone_defs)

text \<open>
  Claim C2, amended. In the release submission of the bounded-drugs page
  (\<open>handleSubmitRelease\<close>, in both copies of the page) the side effects are issued in the
  order: push of the release record, patch of the inspection, SMS. Once both writes have
  committed the run ends the same way whether the SMS succeeds or not: the store holds
  both writes, no error is set and the alert reports the release as recorded; a failed
  SMS leaves a console warning in the first copy and the words \<open>SMS failed\<close> in the alert
  of the second. In the release submission of the inspection detail page
  (\<open>handleReleaseSubmit\<close>) the SMS comes first: the store is written only after the SMS
  has succeeded, and a failed SMS ends the run without any store write.
\<close>

theorem release_side_effect_order:
  "(releaseGuards t f = None \<and> isoOf e (relDate f) = Some d
      \<and> pushFails e = None \<and> updateFails e = None \<longrightarrow>
     (\<exists>c. parseInt (boxesReleased f) = Some c
        \<and> o_trace (handleSubmitRelease e me st (Some t) f)
            = [PushRelease (ident t) (releaseOf e me t f c d),
               PatchInspection (ident t) (patchOf e me t f c),
               Sms (stripSpaces (telephone f)) (ReleaseNotice (noticeOf t f c))]
        \<and> o_store (handleSubmitRelease e me st (Some t) f)
            = patchInspection (ident t) (patchOf e me t f c)
                (pushRelease (ident t) (releaseOf e me t f c d) st)
        \<and> o_error (handleSubmitRelease e me st (Some t) f) = None
        \<and> o_alerts (handleSubmitRelease e me st (Some t) f)
            = [''Release recorded. Status: '' @ p_status (patchOf e me t f c)]
        \<and> (o_warnings (handleSubmitRelease e me st (Some t) f) = []) = (smsFails e = None)))
   \<and> (Sms to n \<in> set (o_trace (handleSubmitRelease e me st tgt f)) \<longrightarrow>
        (\<exists>i r p. o_trace (handleSubmitRelease e me st tgt f)
                   = [PushRelease i r, PatchInspection i p, Sms to n]))
   \<and> (releaseGuards_copy t f = None \<and> isoOf e (relDate f) = Some d
        \<and> pushFails e = None \<and> updateFails e = None \<longrightarrow>
        o_trace (handleSubmitRelease_copy e me st (Some t) f)
            = [PushRelease (ident t) (releaseOf e me t f (intendedCount f) d),
               PatchInspection (ident t) (patchOf e me t f (intendedCount f)),
               Sms (stripSpaces (telephone f)) (ReleaseNotice (noticeOf t f (intendedCount f)))]
        \<and> o_store (handleSubmitRelease_copy e me st (Some t) f)
            = patchInspection (ident t) (patchOf e me t f (intendedCount f))
                (pushRelease (ident t) (releaseOf e me t f (intendedCount f) d) st)
        \<and> o_error (handleSubmitRelease_copy e me st (Some t) f) = None
        \<and> o_alerts (handleSubmitRelease_copy e me st (Some t) f)
            = [''Release recorded''
               @ (if smsFails e = None then '' and SMS sent'' else '' (SMS failed)'')
               @ ''.'' @ [CHR 0x0A] @ ''Status: '' @ p_status (patchOf e me t f (intendedCount f))])
   \<and> (Sms to n \<in> set (o_trace (handleSubmitRelease_copy e me st tgt f)) \<longrightarrow>
        (\<exists>i r p. o_trace (handleSubmitRelease_copy e me st tgt f)
                   = [PushRelease i r, PatchInspection i p, Sms to n]))
   \<and> (PatchReleased j fm \<in> set (o_trace (handleReleaseSubmit e st rid item form consent)) \<longrightarrow>
        smsFails e = None
        \<and> (\<exists>to' m. o_trace (handleReleaseSubmit e st rid item form consent)
                     = [Sms to' m, PatchReleased j fm]))
   \<and> (smsFails e \<noteq> None \<longrightarrow>
        o_store (handleReleaseSubmit e st rid item form consent) = st
        \<and> filter isStoreWrite (o_trace (handleReleaseSubmit e st rid item form consent)) = [])"
proof (intro conjI impI)
  assume a: "releaseGuards t f = None \<and> isoOf e (relDate f) = Some d
      \<and> pushFails e = None \<and> updateFails e = None"
  then obtain c where c: "parseInt (boxesReleased f) = Some c"
    using guards_None by blast
  from a c have "handleSubmitRelease e me st (Some t) f =
     \<lparr>o_store = patchInspection (ident t) (patchOf e me t f c)
                  (pushRelease (ident t) (releaseOf e me t f c d) st),
      o_trace = [PushRelease (ident t) (releaseOf e me t f c d),
                 PatchInspection (ident t) (patchOf e me t f c),
                 Sms (stripSpaces (telephone f)) (ReleaseNotice (noticeOf t f c))],
      o_error = None,
      o_alerts = [''Release recorded. Status: '' @ p_status (patchOf e me t f c)],
      o_warnings = (case smsFails e of None \<Rightarrow> [] | Some m \<Rightarrow> [''SMS failed: '' @ m])\<rparr>"
    by (intro submit_success) simp_all
  with c show "\<exists>c. parseInt (boxesReleased f) = Some c
        \<and> o_trace (handleSubmitRelease e me st (Some t) f)
            = [PushRelease (ident t) (releaseOf e me t f c d),
               PatchInspection (ident t) (patchOf e me t f c),
               Sms (stripSpaces (telephone f)) (ReleaseNotice (noticeOf t f c))]
        \<and> o_store (handleSubmitRelease e me st (Some t) f)
            = patchInspection (ident t) (patchOf e me t f c)
                (pushRelease (ident t) (releaseOf e me t f c d) st)
        \<and> o_error (handleSubmitRelease e me st (Some t) f) = None
        \<and> o_alerts (handleSubmitRelease e me st (Some t) f)
            = [''Release recorded. Status: '' @ p_status (patchOf e me t f c)]
        \<and> (o_warnings (handleSubmitRelease e me st (Some t) f) = []) = (smsFails e = None)"
    by (cases "smsFails e") auto
next
  assume "Sms to n \<in> set (o_trace (handleSubmitRelease e me st tgt f))"
  then show "\<exists>i r p. o_trace (handleSubmitRelease e me st tgt f)
                   = [PushRelease i r, PatchInspection i p, Sms to n]"
    by (rule submit_sms_last)
next
  assume "Sms to n \<in> set (o_trace (handleSubmitRelease_copy e me st tgt f))"
  then show "\<exists>i r p. o_trace (handleSubmitRelease_copy e me st tgt f)
                   = [PushRelease i r, PatchInspection i p, Sms to n]"
    by (rule submit_copy_sms_last)
next
  assume "PatchReleased j fm \<in> set (o_trace (handleReleaseSubmit e st rid item form consent))"
  from detail_sms_first [OF this]
  show "smsFails e = None" and "\<exists>to' m. o_trace (handleReleaseSubmit e st rid item form consent)
                     = [Sms to' m, PatchReleased j fm]"
    by blast+
next
  assume "smsFails e \<noteq> None"
  then obtain m where "smsFails e = Some m" by auto
  from detail_sms_failure_aborts [OF this]
  show "o_store (handleReleaseSubmit e st rid item form consent) = st"
    and "filter isStoreWrite (o_trace (handleReleaseSubmit e st rid item form consent)) = []"
    by blast+
qed (simp_all add: submit_copy_success)


theorem release_side_effect_order_witness:
  "releaseGuards exRow exModal = None
   \<and> isoOf exSmsDown (relDate exModal) = Some ''2024-07-01T00:00:00.000Z''
   \<and> pushFails exSmsDown = None \<and> updateFails exSmsDown = None
   \<and> smsFails exSmsDown \<noteq> None
   \<and> o_error (handleSubmitRelease exSmsDown None (exStore ''In Store'') (Some exRow) exModal) = None
   \<and> o_alerts (handleSubmitRelease exSmsDown None (exStore ''In Store'') (Some exRow) exModal)
       = [''Release recorded. Status: Completed'']
   \<and> o_warnings (handleSubmitRelease exSmsDown None (exStore ''In Store'') (Some exRow) exModal) \<noteq> []
   \<and> releaseGuards_copy exRow exModal = None
   \<and> o_alerts (handleSubmitRelease_copy exSmsDown None (exStore ''In Store'') (Some exRow) exModal)
       = [''Release recorded (SMS failed).'' @ [CHR 0x0A] @ ''Status: Completed'']
   \<and> PatchReleased ''k1'' exForm \<in> set (o_trace (handleReleaseSubmit exEnv (exStore ''In Store'')
         (Some ''k1'') (Some (exSubmission ''In Store'')) exForm True))
   \<and> smsFails exEnv = None
   \<and> o_store (handleReleaseSubmit exSmsDown (exStore ''In Store'') (Some ''k1'')
         (Some (exSubmission ''In Store'')) exForm True) = exStore ''In Store''"
proof -
  have g: "releaseGuards exRow exModal = None" by code_simp
  have gc: "releaseGuards_copy exRow exModal = None" by code_simp
  have i: "isoOf exSmsDown (relDate exModal) = Some ''2024-07-01T00:00:00.000Z''"
    "pushFails exSmsDown = None" "updateFails exSmsDown = None" "smsFails exSmsDown \<noteq> None"
    by (simp_all add: ex_defs)
  have c: "parseInt (boxesReleased exModal) = Some 5" by code_simp
  have ic: "intendedCount exModal = 5" by (simp add: intendedCount_def c)
  have s: "p_status (patchOf exSmsDown None exRow exModal 5) = ''Completed''" by code_simp
  have r: "PatchReleased ''k1'' exForm \<in> set (o_trace (handleReleaseSubmit exEnv (exStore ''In Store'')
         (Some ''k1'') (Some (exSubmission ''In Store'')) exForm True))"
    by (simp add: handleReleaseSubmit_def validateRelease_def quiet_def Let_def ex_defs phone_defs)
  show ?thesis
    using g gc i c ic s r
      release_side_effect_order [where t = exRow and f = exModal and e = exSmsDown
        and d = "''2024-07-01T00:00:00.000Z''" and me = None and st = "exStore ''In Store''"
        and tgt = "Some exRow" and to = "''0712345678''" and n = "ReleaseNotice (noticeOf exRow exModal 5)"
        and rid = "Some ''k1''" and item = "Some (exSubmission ''In Store'')" and form = exForm
        and consent = True and j = "''k1''" and fm = exForm]
      release_side_effect_order [where t = exRow and f = exModal and e = exEnv
        and d = "''2024-07-01T00:00:00.000Z''" and me = None and st = "exStore ''In Store''"
        and tgt = "Some exRow" and to = "''0712345678''" and n = "ReleaseNotice (noticeOf exRow exModal 5)"
        and rid = "Some ''k1''" and item = "Some (exSubmission ''In Store'')" and form = exForm
        and consent = True and j = "''k1''" and fm = exForm]
    by (simp add: exEnv_def)
qed


section \<open>Printing and reading a box count\<close>













section \<open>Validation of a release\<close>












section \<open>The arithmetic of a release\<close>















section \<open>Error replies of the SMS proxy\<close>














section \<open>The automatic reminder fires once\<close>
















section \<open>Paging with loadMore\<close>

lemma insertChild_props:
  "length (insertChild x ys) = Suc (length ys)" "set (insertChild x ys) = insert x (set ys)"
  by (induction ys) auto

lemma orderChildren_props:
  "length (orderChildren xs) = length xs" "set (orderChildren xs) = set xs"
  unfolding orderChildren_def by (induction xs) (simp_all add: insertChild_props)



lemma queryEndAt_length:
  "length (queryEndAt ds b) = min PAGE_SIZE (length (filter (withinBound b) ds))"
  by (simp add: queryEndAt_def limitToLast_def orderChildren_props)




















end
